theory Spec2Isabelle
  imports Main "HOL-Library.Word" "HOL-Library.Char_ord" "HOL-Library.List_Lexorder"
    "HOL-Library.AList"
begin

section \<open>The QEMU virtual-machine driver: data model\<close>

text \<open>
  The driver is the Go type \<^verbatim>\<open>qemu\<close> with its methods. Go maps from strings to
  strings are association lists with distinct keys; the order of the list is the order in
  which a \<^verbatim>\<open>range\<close> loop happens to visit the map (Go leaves that order open).
  Reading a map at a key that is absent gives the empty string, as in Go.
\<close>

type_synonym gomap = "(string \<times> string) list"

definition index :: "gomap \<Rightarrow> string \<Rightarrow> string" where
  "index m k = (case map_of m k of None \<Rightarrow> [] | Some v \<Rightarrow> v)"

text \<open>\<^verbatim>\<open>deviceConfig.Device\<close> is \<^verbatim>\<open>map[string]string\<close>, \<^verbatim>\<open>deviceConfig.Devices\<close> is
  \<^verbatim>\<open>map[string]Device\<close>.\<close>

type_synonym Device = gomap
type_synonym Devices = "(string \<times> Device) list"

text \<open>\<^verbatim>\<open>strings.HasPrefix\<close>, \<^verbatim>\<open>strings.TrimPrefix\<close>, \<^verbatim>\<open>shared.StringInSlice\<close> and
  \<^verbatim>\<open>strings.ToUpper\<close> (on ASCII letters).\<close>

fun HasPrefix :: "string \<Rightarrow> string \<Rightarrow> bool" where
  "HasPrefix s [] = True"
| "HasPrefix [] (p # ps) = False"
| "HasPrefix (c # cs) (p # ps) = (c = p \<and> HasPrefix cs ps)"

definition TrimPrefix :: "string \<Rightarrow> string \<Rightarrow> string" where
  "TrimPrefix s p = (if HasPrefix s p then drop (length p) s else s)"

definition StringInSlice :: "string \<Rightarrow> string list \<Rightarrow> bool" where
  "StringInSlice key xs = (key \<in> set xs)"

definition ToUpper :: "string \<Rightarrow> string" where
  "ToUpper s =
     map (\<lambda>c. case map_of (zip ''abcdefghijklmnopqrstuvwxyz'' ''ABCDEFGHIJKLMNOPQRSTUVWXYZ'') c of
                None \<Rightarrow> c
              | Some u \<Rightarrow> u) s"

text \<open>
  Errors are values. The two sentinel errors that the driver compares with \<^verbatim>\<open>==\<close> are
  constructors of their own. \<open>Errorf_v msg e\<close> is \<^verbatim>\<open>fmt.Errorf\<close> with the error \<open>e\<close>
  printed into the message, \<open>Wrap e msg\<close> is \<^verbatim>\<open>errors.Wrap(e, msg)\<close>. A call through a nil
  pointer does not return in Go; the model returns \<open>Panic\<close> at that point.
\<close>

datatype error =
    ErrMonitorDisconnect
  | ErrUnsupportedDevType
  | Errorf string
  | Errorf_v string error
  | Wrap error string
  | Panic




subsection \<open>The environment\<close>

text \<open>
  Everything outside the driver (the cluster database, the QMP monitor, the operation lock
  registry, the device implementations, the host) is reached through calls. A call that acts
  on the outside is an \<open>event\<close>; the driver's state carries the list of the events so far,
  in the order in which they were issued. The answer of a call is a function of that
  history, so that the environment may answer the same call differently at different times.
\<close>

datatype lock_call =
    operationlock_Create int string bool bool
  | op_Done "error option"
  | op_Wait

datatype monitor_call =
    qmp_Connect
  | monitor_Wait
  | monitor_Powerdown
  | monitor_Quit
  | monitor_Start
  | chDisconnect
  | time_After

datatype db_call =
    Cluster_Begin
  | tx_Rollback
  | TxCommit
  | ContainerConfigInsert int gomap
  | ContainerConfigUpdate int gomap
  | InstanceSnapshotConfigUpdate int gomap
  | ContainerSetState int string
  | ContainerLastUsedUpdate int
  | InstanceSnapshotUpdate int string int
  | ContainerConfigClear int
  | ContainerProfilesInsert int string "string list"
  | DevicesAdd int Devices
  | ContainerUpdate int string int bool int

datatype device_call =
    d_Start string
  | d_Stop string
  | d_Add string
  | d_Remove string
  | d_Update string
  | PostHook string nat

datatype file_call =
    MkdirAll string
  | os_Remove string
  | filepath_Walk_Chown
  | os_Stat string
  | openUnixSocket string
  | c_File string
  | os_OpenFile string

datatype host_call =
    LoadModule string
  | mount
  | unmount
  | generateConfigShare
  | setupNvram
  | cmd_Run
  | proc_Kill int
  | SchedSetaffinity int "64 word"
  | maasUpdate
  | UpdateBackupFile
  | SendLifecycle string string

datatype event =
    Lock lock_call
  | Monitor monitor_call
  | DB db_call
  | Dev device_call
  | File file_call
  | Host host_call

text \<open>What a started or stopped device hands back: the mounts and the network interface
  settings are data for the configuration file, the post hooks are closures, named here by
  numbers.\<close>

record RunConfig =
  Mounts :: "gomap list"
  NetworkInterface :: gomap
  PostHooks :: "nat list"

text \<open>The result \<^verbatim>\<open>(d, err)\<close> of \<^verbatim>\<open>device.New\<close>: a device and no error, a device and
  a validation error, or no device and an error.\<close>

datatype New_result = New_ok | New_invalid error | New_failed error

text \<open>The host's CPU topology, \<^verbatim>\<open>resources.CPU\<close>: sockets, their cores, their threads.\<close>

record CPUThread =
  ID :: int
  Thread :: nat

record CPUCore =
  Core :: nat
  Threads :: "CPUThread list"

record CPUSocket =
  Socket :: nat
  Cores :: "CPUCore list"

datatype StatusCode = Running | Stopped | Frozen | Error

record env =
  err :: "event list \<Rightarrow> event \<Rightarrow> error option"
  retries :: nat
  IsRetriableError :: "error \<Rightarrow> bool"
  StatusCode_String :: "StatusCode \<Rightarrow> string"
  monitor_Status :: "event list \<Rightarrow> error + string"
  monitor_GetCPUs :: "event list \<Rightarrow> error + int list"
  select_After :: "event list \<Rightarrow> bool"
  operationlock_Get :: "event list \<Rightarrow> int \<Rightarrow> string option"
  NICType :: "Device \<Rightarrow> string"
  DeviceNextInterfaceHWAddr :: "event list \<Rightarrow> error + string"
  ContainerConfigGet :: "event list \<Rightarrow> int \<Rightarrow> string \<Rightarrow> error + string"
  device_New :: "event list \<Rightarrow> string \<Rightarrow> Device \<Rightarrow> New_result"
  CanHotPlug :: "event list \<Rightarrow> string \<Rightarrow> Device \<Rightarrow> bool \<times> string list"
  Start_result :: "event list \<Rightarrow> string \<Rightarrow> Device \<Rightarrow> error + RunConfig option"
  Stop_result :: "event list \<Rightarrow> string \<Rightarrow> Device \<Rightarrow> error + RunConfig option"
  GetCPU :: "event list \<Rightarrow> error + CPUSocket list"
  ParseCpuset :: "string \<Rightarrow> error + int list"

record qemu =
  architecture :: int
  snapshot :: bool
  ephemeral :: bool
  id_vm :: int
  name :: string
  description :: string
  project :: string
  expiryDate :: int
  localConfig :: gomap
  expandedConfig :: gomap
  localDevices :: Devices
  expandedDevices :: Devices
  profiles :: "string list"
  trace :: "event list"

text \<open>An external call that returns only an error: it is recorded, and the environment
  answers from the history before it. \<open>emit\<close> is a call whose result the driver drops.\<close>

definition call :: "env \<Rightarrow> event \<Rightarrow> qemu \<Rightarrow> error option \<times> qemu" where
  "call X ev vm = (err X (trace vm) ev, vm\<lparr>trace := trace vm @ [ev]\<rparr>)"

definition emit :: "event \<Rightarrow> qemu \<Rightarrow> qemu" where
  "emit ev vm = vm\<lparr>trace := trace vm @ [ev]\<rparr>"

text \<open>
  Modelled from the spec: \<^verbatim>\<open>query.Retry\<close> (package lxd/db/query, not under src/), the
  "retry loop" of a database interaction: the function is run, and run again while it fails
  with an error that the database layer takes for transient and attempts are left.
\<close>

fun Retry :: "nat \<Rightarrow> (error \<Rightarrow> bool) \<Rightarrow> (qemu \<Rightarrow> error option \<times> qemu) \<Rightarrow> qemu
    \<Rightarrow> error option \<times> qemu" where
  "Retry 0 retriable f vm = f vm"
| "Retry (Suc n) retriable f vm =
     (case f vm of
        (None, vm1) \<Rightarrow> (None, vm1)
      | (Some e, vm1) \<Rightarrow> if retriable e then Retry n retriable f vm1 else (Some e, vm1))"

text \<open>
  Modelled from the spec: \<^verbatim>\<open>Devices.Sorted\<close> and \<^verbatim>\<open>Devices.Reversed\<close> (package
  lxd/device/config, not under src/): "Device names sort lexicographically", and the
  reverse of that order.
\<close>

definition Sorted :: "Devices \<Rightarrow> (string \<times> Device) list" where
  "Sorted devs = sort_key fst devs"

definition Reversed :: "Devices \<Rightarrow> (string \<times> Device) list" where
  "Reversed devs = rev (sort_key fst devs)"

subsection \<open>State of the instance\<close>

definition IsSnapshot :: "qemu \<Rightarrow> bool" where
  "IsSnapshot vm = snapshot vm"

definition statusCode :: "env \<Rightarrow> qemu \<Rightarrow> StatusCode" where
  "statusCode X vm =
     (case err X (trace vm) (Monitor qmp_Connect) of
        Some e \<Rightarrow> Stopped
      | None \<Rightarrow>
          (case monitor_Status X (trace vm) of
             Inl e \<Rightarrow> if e = ErrMonitorDisconnect then Stopped else Error
           | Inr status \<Rightarrow>
               if status = ''running'' then Running
               else if status = ''paused'' then Frozen
               else Stopped))"

definition State :: "env \<Rightarrow> qemu \<Rightarrow> string" where
  "State X vm = ToUpper (StatusCode_String X (statusCode X vm))"

definition IsRunning :: "env \<Rightarrow> qemu \<Rightarrow> bool" where
  "IsRunning X vm = (let state = State X vm in state \<noteq> ''BROKEN'' \<and> state \<noteq> ''STOPPED'')"

section \<open>VolatileSet\<close>

text \<open>The sanity check: the first loop of \<^verbatim>\<open>VolatileSet\<close>.\<close>

fun VolatileSet_check :: "gomap \<Rightarrow> error option" where
  "VolatileSet_check [] = None"
| "VolatileSet_check ((key, val) # changes) =
     (if \<not> HasPrefix key ''volatile.''
      then Some (Errorf ''Only volatile keys can be modified with VolatileSet'')
      else VolatileSet_check changes)"

text \<open>Applying the change locally: the last loop of \<^verbatim>\<open>VolatileSet\<close>.\<close>

fun VolatileSet_apply :: "gomap \<Rightarrow> qemu \<Rightarrow> qemu" where
  "VolatileSet_apply [] vm = vm"
| "VolatileSet_apply ((key, val) # changes) vm =
     VolatileSet_apply changes
       (if val = []
        then vm\<lparr>expandedConfig := AList.delete key (expandedConfig vm),
                localConfig := AList.delete key (localConfig vm)\<rparr>
        else vm\<lparr>expandedConfig := AList.update key val (expandedConfig vm),
                localConfig := AList.update key val (localConfig vm)\<rparr>)"

definition VolatileSet :: "env \<Rightarrow> gomap \<Rightarrow> qemu \<Rightarrow> error option \<times> qemu" where
  "VolatileSet X changes vm =
     (case VolatileSet_check changes of
        Some e \<Rightarrow> (Some e, vm)
      | None \<Rightarrow>
          (case call X (if IsSnapshot vm then DB (InstanceSnapshotConfigUpdate (id_vm vm) changes)
                        else DB (ContainerConfigUpdate (id_vm vm) changes)) vm of
             (Some e, vm1) \<Rightarrow> (Some (Wrap e ''Failed to volatile config''), vm1)
           | (None, vm1) \<Rightarrow> (None, VolatileSet_apply changes vm1)))"

section \<open>FillNetworkDevice\<close>

text \<open>The closure \<^verbatim>\<open>updateKey\<close>: one transaction that inserts one config row.\<close>

definition updateKey :: "env \<Rightarrow> string \<Rightarrow> string \<Rightarrow> qemu \<Rightarrow> error option \<times> qemu" where
  "updateKey X key val vm =
     (case call X (DB Cluster_Begin) vm of
        (Some e, vm1) \<Rightarrow> (Some e, vm1)
      | (None, vm1) \<Rightarrow>
          (case call X (DB (ContainerConfigInsert (id_vm vm1) [(key, val)])) vm1 of
             (Some e, vm2) \<Rightarrow> (Some e, emit (DB tx_Rollback) vm2)
           | (None, vm2) \<Rightarrow> call X (DB TxCommit) vm2))"

text \<open>The function handed to \<^verbatim>\<open>query.Retry\<close>: when the insert fails, the key is read
  back, and a value that somebody else has stored meanwhile is taken over.\<close>

definition FillNetworkDevice_update :: "env \<Rightarrow> string \<Rightarrow> string \<Rightarrow> qemu
    \<Rightarrow> error option \<times> qemu" where
  "FillNetworkDevice_update X configKey volatileHwaddr vm =
     (case updateKey X configKey volatileHwaddr vm of
        (Some e, vm1) \<Rightarrow>
          (case ContainerConfigGet X (trace vm1) (id_vm vm1) configKey of
             Inl e1 \<Rightarrow> (Some e, vm1)
           | Inr val \<Rightarrow>
               if val = [] then (Some e, vm1)
               else (None, vm1\<lparr>localConfig := AList.update configKey val (localConfig vm1),
                                expandedConfig := AList.update configKey val (expandedConfig vm1)\<rparr>))
      | (None, vm1) \<Rightarrow>
          (None, vm1\<lparr>localConfig := AList.update configKey volatileHwaddr (localConfig vm1),
                     expandedConfig := AList.update configKey volatileHwaddr (expandedConfig vm1)\<rparr>))"

definition FillNetworkDevice :: "env \<Rightarrow> string \<Rightarrow> Device \<Rightarrow> qemu \<Rightarrow> (error + Device) \<times> qemu" where
  "FillNetworkDevice X name' m vm =
     (let newDevice = m in
      if \<not> StringInSlice (NICType X m) [''physical'', ''ipvlan'', ''sriov''] \<and> index m ''hwaddr'' = []
      then
        (let configKey = ''volatile.'' @ name' @ ''.hwaddr'';
             volatileHwaddr = index (localConfig vm) configKey
         in if volatileHwaddr = []
            then (case DeviceNextInterfaceHWAddr X (trace vm) of
                    Inl e \<Rightarrow> (Inl e, vm)
                  | Inr generated \<Rightarrow>
                      (case Retry (retries X) (IsRetriableError X)
                              (FillNetworkDevice_update X configKey generated) vm of
                         (Some e, vm1) \<Rightarrow> (Inl e, vm1)
                       | (None, vm1) \<Rightarrow> (Inr (AList.update ''hwaddr'' generated newDevice), vm1)))
            else (Inr (AList.update ''hwaddr'' volatileHwaddr newDevice), vm))
      else (Inr newDevice, vm))"

section \<open>Devices\<close>

text \<open>
  \<^verbatim>\<open>deviceLoad\<close> returns \<^verbatim>\<open>(d, configCopy, err)\<close>; the device \<open>d\<close> is known by its name
  and \<open>configCopy\<close>, so the model keeps whether \<open>d\<close> is there. The device implementations
  are outside the driver: what they do with the volatile getter and setter they are given
  is not part of the model.
\<close>

definition deviceLoad :: "env \<Rightarrow> string \<Rightarrow> Device \<Rightarrow> qemu
    \<Rightarrow> (bool \<times> Device \<times> error option) \<times> qemu" where
  "deviceLoad X deviceName rawConfig vm =
     (case (if StringInSlice (index rawConfig ''type'') [''nic'', ''infiniband'']
            then FillNetworkDevice X deviceName rawConfig vm
            else (Inr rawConfig, vm)) of
        (Inl e, vm1) \<Rightarrow> ((False, [], Some e), vm1)
      | (Inr configCopy, vm1) \<Rightarrow>
          (case device_New X (trace vm1) deviceName configCopy of
             New_ok \<Rightarrow> ((True, configCopy, None), vm1)
           | New_invalid e \<Rightarrow> ((True, configCopy, Some e), vm1)
           | New_failed e \<Rightarrow> ((False, configCopy, Some e), vm1)))"

fun runHooks :: "env \<Rightarrow> string \<Rightarrow> nat list \<Rightarrow> qemu \<Rightarrow> error option \<times> qemu" where
  "runHooks X deviceName [] vm = (None, vm)"
| "runHooks X deviceName (hook # hooks) vm =
     (case call X (Dev (PostHook deviceName hook)) vm of
        (Some e, vm1) \<Rightarrow> (Some e, vm1)
      | (None, vm1) \<Rightarrow> runHooks X deviceName hooks vm1)"

definition deviceStart :: "env \<Rightarrow> string \<Rightarrow> Device \<Rightarrow> bool \<Rightarrow> qemu
    \<Rightarrow> (error + RunConfig option) \<times> qemu" where
  "deviceStart X deviceName rawConfig isRunning vm =
     (case deviceLoad X deviceName rawConfig vm of
        ((d, configCopy, Some e), vm1) \<Rightarrow> (Inl e, vm1)
      | ((d, configCopy, None), vm1) \<Rightarrow>
          if isRunning \<and> \<not> fst (CanHotPlug X (trace vm1) deviceName configCopy)
          then (Inl (Errorf ''Device cannot be started when instance is running''), vm1)
          else (Start_result X (trace vm1) deviceName configCopy, emit (Dev (d_Start deviceName)) vm1))"

definition deviceStop :: "env \<Rightarrow> string \<Rightarrow> Device \<Rightarrow> qemu \<Rightarrow> error option \<times> qemu" where
  "deviceStop X deviceName rawConfig vm =
     (case deviceLoad X deviceName rawConfig vm of
        ((d, configCopy, e), vm1) \<Rightarrow>
          if e = Some ErrUnsupportedDevType then (e, vm1)
          else if e \<noteq> None \<and> \<not> d
          then (Some (Errorf_v (''Device stop validation failed for '' @ deviceName) (the e)), vm1)
          else if IsRunning X vm1 \<and> \<not> fst (CanHotPlug X (trace vm1) deviceName configCopy)
          then (Some (Errorf ''Device cannot be stopped when instance is running''), vm1)
          else (case Stop_result X (trace vm1) deviceName configCopy of
                  Inl e1 \<Rightarrow> (Some e1, emit (Dev (d_Stop deviceName)) vm1)
                | Inr None \<Rightarrow> (None, emit (Dev (d_Stop deviceName)) vm1)
                | Inr (Some runConf) \<Rightarrow>
                    runHooks X deviceName (PostHooks runConf) (emit (Dev (d_Stop deviceName)) vm1)))"

definition deviceAdd :: "env \<Rightarrow> string \<Rightarrow> Device \<Rightarrow> qemu \<Rightarrow> error option \<times> qemu" where
  "deviceAdd X deviceName rawConfig vm =
     (case deviceLoad X deviceName rawConfig vm of
        ((d, configCopy, Some e), vm1) \<Rightarrow> (Some e, vm1)
      | ((d, configCopy, None), vm1) \<Rightarrow> call X (Dev (d_Add deviceName)) vm1)"

definition deviceRemove :: "env \<Rightarrow> string \<Rightarrow> Device \<Rightarrow> qemu \<Rightarrow> error option \<times> qemu" where
  "deviceRemove X deviceName rawConfig vm =
     (case deviceLoad X deviceName rawConfig vm of
        ((d, configCopy, e), vm1) \<Rightarrow>
          if e = Some ErrUnsupportedDevType then (e, vm1)
          else if \<not> d then (Some Panic, vm1)
          else call X (Dev (d_Remove deviceName)) vm1)"

definition deviceUpdate :: "env \<Rightarrow> string \<Rightarrow> Device \<Rightarrow> Devices \<Rightarrow> bool \<Rightarrow> qemu
    \<Rightarrow> error option \<times> qemu" where
  "deviceUpdate X deviceName rawConfig oldDevices isRunning vm =
     (case deviceLoad X deviceName rawConfig vm of
        ((d, configCopy, Some e), vm1) \<Rightarrow> (Some e, vm1)
      | ((d, configCopy, None), vm1) \<Rightarrow> call X (Dev (d_Update deviceName)) vm1)"

text \<open>\<^verbatim>\<open>cleanupDevices\<close>: the loop over \<^verbatim>\<open>vm.expandedDevices.Sorted()\<close>; an error of
  \<^verbatim>\<open>deviceStop\<close> is logged and the loop goes on.\<close>

fun cleanupDevices_loop :: "env \<Rightarrow> (string \<times> Device) list \<Rightarrow> qemu \<Rightarrow> qemu" where
  "cleanupDevices_loop X [] vm = vm"
| "cleanupDevices_loop X ((devName, devConfig) # devs) vm =
     cleanupDevices_loop X devs (snd (deviceStop X devName devConfig vm))"

definition cleanupDevices :: "env \<Rightarrow> qemu \<Rightarrow> qemu" where
  "cleanupDevices X vm = cleanupDevices_loop X (Sorted (expandedDevices vm)) vm"

text \<open>A sequence of calls of \<^verbatim>\<open>FillNetworkDevice\<close> for one device name, one after the
  other, with the results in order.\<close>

fun FillNetworkDevice_calls :: "env \<Rightarrow> string \<Rightarrow> Device list \<Rightarrow> qemu
    \<Rightarrow> (error + Device) list \<times> qemu" where
  "FillNetworkDevice_calls X name' [] vm = ([], vm)"
| "FillNetworkDevice_calls X name' (m # ms) vm =
     (case FillNetworkDevice X name' m vm of
        (r, vm1) \<Rightarrow> (case FillNetworkDevice_calls X name' ms vm1 of (rs, vm2) \<Rightarrow> (r # rs, vm2)))"

section \<open>deviceBootPriorities\<close>











section \<open>cpuTopology\<close>

text \<open>
  The three maps that the matching loop fills, with the counter \<open>i\<close>:
  \<open>(i, vcpus, sockets, cores)\<close>. \<^verbatim>\<open>vcpus\<close> is \<^verbatim>\<open>map[uint64]uint64\<close>, \<^verbatim>\<open>sockets\<close> and
  \<^verbatim>\<open>cores\<close> are \<^verbatim>\<open>map[uint64][]uint64\<close>. The identifiers of sockets, cores and threads are
  only compared and copied, so they are natural numbers; a pin is a Go \<^verbatim>\<open>int\<close>, converted
  to \<^verbatim>\<open>uint64\<close> when it is stored. Lengths are far from the range of a 64-bit \<^verbatim>\<open>int\<close>, so
  the products of lengths are products of integers.
\<close>

type_synonym tracking =
  "nat \<times> (nat \<times> 64 word) list \<times> (nat \<times> nat list) list \<times> (nat \<times> nat list) list"

text \<open>"Track cores per socket" and "Track threads per core": the entry for \<open>key\<close> is created
  empty when missing, and \<open>v\<close> is appended to it unless it is there.\<close>

definition track :: "nat \<Rightarrow> nat \<Rightarrow> (nat \<times> nat list) list \<Rightarrow> (nat \<times> nat list) list" where
  "track key v m =
     (let m1 = (if map_of m key = None then AList.update key [] m else m);
          xs = (case map_of m1 key of None \<Rightarrow> [] | Some ys \<Rightarrow> ys)
      in if v \<in> set xs then m1 else AList.update key (xs @ [v]) m1)"

fun match_pins :: "nat \<Rightarrow> nat \<Rightarrow> CPUThread \<Rightarrow> int list \<Rightarrow> tracking \<Rightarrow> tracking" where
  "match_pins so co th [] st = st"
| "match_pins so co th (pin # pins) (i, vcpus, sockets, cores) =
     match_pins so co th pins
       (if ID th = pin
        then (i + 1, AList.update i (word_of_int pin) vcpus,
              track so co sockets, track co (Thread th) cores)
        else (i, vcpus, sockets, cores))"

fun match_threads :: "nat \<Rightarrow> nat \<Rightarrow> CPUThread list \<Rightarrow> int list \<Rightarrow> tracking \<Rightarrow> tracking" where
  "match_threads so co [] pins st = st"
| "match_threads so co (th # ths) pins st =
     match_threads so co ths pins (match_pins so co th pins st)"

fun match_cores :: "nat \<Rightarrow> CPUCore list \<Rightarrow> int list \<Rightarrow> tracking \<Rightarrow> tracking" where
  "match_cores so [] pins st = st"
| "match_cores so (core # cs) pins st =
     match_cores so cs pins (match_threads so (Core core) (Threads core) pins st)"

fun match_sockets :: "CPUSocket list \<Rightarrow> int list \<Rightarrow> tracking \<Rightarrow> tracking" where
  "match_sockets [] pins st = st"
| "match_sockets (cpu # cpus) pins st =
     match_sockets cpus pins (match_cores (Socket cpu) (Cores cpu) pins st)"

text \<open>The two loops that "confirm that there is no balancing inconsistencies": the count
  starts at -1, and a list of another length than the count clears \<open>valid\<close> and leaves the
  loop.\<close>

fun count_loop :: "(nat \<times> nat list) list \<Rightarrow> bool \<Rightarrow> int \<Rightarrow> bool \<times> int" where
  "count_loop [] valid count = (valid, count)"
| "count_loop ((k, xs) # rest) valid count =
     (if count \<noteq> - 1 \<and> int (length xs) \<noteq> count then (False, count)
      else count_loop rest valid (int (length xs)))"

definition cpuTopology :: "env \<Rightarrow> qemu \<Rightarrow> string
    \<Rightarrow> error + (int \<times> int \<times> int \<times> (nat \<times> 64 word) list)" where
  "cpuTopology X vm limit =
     (case GetCPU X (trace vm) of
        Inl e \<Rightarrow> Inl e
      | Inr cpus \<Rightarrow>
          (case ParseCpuset X limit of
             Inl e \<Rightarrow> Inl e
           | Inr pins \<Rightarrow>
               (case match_sockets cpus pins (0, [], [], []) of
                  (i, vcpus, sockets, cores) \<Rightarrow>
                    if length pins \<noteq> length vcpus
                    then Inl (Errorf (''Unavailable CPUs requested: '' @ limit))
                    else (case count_loop sockets True (- 1) of
                            (valid1, countCores) \<Rightarrow>
                              (case count_loop cores valid1 (- 1) of
                                 (valid2, countThreads) \<Rightarrow>
                                   if valid2 \<and> int (length sockets) * countCores * countThreads
                                                = int (length vcpus)
                                   then Inr (int (length sockets), countCores, countThreads, vcpus)
                                   else Inr (1, int (length vcpus), 1, vcpus))))))"

text \<open>The identifiers of all threads of the host, and the validity of a topology in the
  words of the specification: all sockets contribute the same number \<open>c\<close> of cores, all
  cores the same number \<open>t\<close> of threads, and sockets times \<open>c\<close> times \<open>t\<close> is the number of
  vcpus.\<close>

definition threadIDs :: "CPUSocket list \<Rightarrow> int list" where
  "threadIDs cpus = concat (map (\<lambda>cpu. concat (map (\<lambda>core. map ID (Threads core)) (Cores cpu))) cpus)"

definition topology_valid :: "(nat \<times> nat list) list \<Rightarrow> (nat \<times> nat list) list \<Rightarrow> nat \<Rightarrow> bool" where
  "topology_valid sockets cores n =
     (\<exists>c t. (\<forall>s \<in> set sockets. length (snd s) = c) \<and> (\<forall>k \<in> set cores. length (snd k) = t)
            \<and> length sockets * c * t = n)"

section \<open>A concrete environment and instance\<close>

text \<open>An environment in which every call succeeds and the monitor reports a running
  guest, and a small instance with a root disk and a network card; used to evaluate the
  definitions on concrete inputs.\<close>

definition env_ok :: env where
  "env_ok = \<lparr>
     err = (\<lambda>h ev. None),
     retries = 4,
     IsRetriableError = (\<lambda>e. False),
     StatusCode_String = (\<lambda>c. case c of Running \<Rightarrow> ''Running'' | Stopped \<Rightarrow> ''Stopped''
                                | Frozen \<Rightarrow> ''Frozen'' | Error \<Rightarrow> ''Error''),
     monitor_Status = (\<lambda>h. Inr ''running''),
     monitor_GetCPUs = (\<lambda>h. Inr [101, 102]),
     select_After = (\<lambda>h. False),
     operationlock_Get = (\<lambda>h i. None),
     NICType = (\<lambda>d. index d ''nictype''),
     DeviceNextInterfaceHWAddr = (\<lambda>h. Inr ''00:16:3e:aa:bb:cc''),
     ContainerConfigGet = (\<lambda>h i k. Inr []),
     device_New = (\<lambda>h n d. New_ok),
     CanHotPlug = (\<lambda>h n d. (True, [])),
     Start_result = (\<lambda>h n d. Inr None),
     Stop_result = (\<lambda>h n d. Inr None),
     GetCPU = (\<lambda>h. Inr []),
     ParseCpuset = (\<lambda>s. Inr [])
   \<rparr>"

definition vm0 :: qemu where
  "vm0 = \<lparr>
     architecture = 2,
     snapshot = False,
     ephemeral = False,
     id_vm = 7,
     name = ''v1'',
     description = [],
     project = ''default'',
     expiryDate = 0,
     localConfig = [(''limits.memory'', ''2GiB'')],
     expandedConfig = [(''limits.memory'', ''2GiB'')],
     localDevices = [(''root'', [(''type'', ''disk''), (''path'', ''/'')]),
                     (''eth0'', [(''type'', ''nic''), (''nictype'', ''bridged'')])],
     expandedDevices = [(''root'', [(''type'', ''disk''), (''path'', ''/'')]),
                        (''eth0'', [(''type'', ''nic''), (''nictype'', ''bridged'')])],
     profiles = [],
     trace = []
   \<rparr>"


text \<open>A host with one socket of two cores with two threads each, and a host with two
  cores of which the second has one thread only.\<close>

definition host4 :: "CPUSocket list" where
  "host4 = [\<lparr>Socket = 0, Cores =
              [\<lparr>Core = 0, Threads = [\<lparr>ID = 0, Thread = 0\<rparr>, \<lparr>ID = 1, Thread = 1\<rparr>]\<rparr>,
               \<lparr>Core = 1, Threads = [\<lparr>ID = 2, Thread = 0\<rparr>, \<lparr>ID = 3, Thread = 1\<rparr>]\<rparr>]\<rparr>]"

definition env_cpu :: env where
  "env_cpu = env_ok\<lparr>GetCPU := (\<lambda>h. Inr host4),
                    ParseCpuset := (\<lambda>s. if s = ''0-3'' then Inr [0, 1, 2, 3]
                                        else if s = ''0-2'' then Inr [0, 1, 2]
                                        else if s = ''2-5'' then Inr [2, 3, 4, 5]
                                        else Inl (Errorf ''Invalid cpuset''))\<rparr>"

section \<open>Properties of VolatileSet\<close>

lemma VolatileSet_check_Some:
  "(\<exists>key \<in> fst ` set changes. \<not> HasPrefix key ''volatile.'') \<Longrightarrow>
   VolatileSet_check changes = Some (Errorf ''Only volatile keys can be modified with VolatileSet'')"
  by (induction changes) force+

lemma VolatileSet_check_None:
  "(\<forall>key \<in> fst ` set changes. HasPrefix key ''volatile.'') \<Longrightarrow> VolatileSet_check changes = None"
  by (induction changes) auto

lemma VolatileSet_apply_local_notin:
  "k \<notin> fst ` set changes \<Longrightarrow>
   map_of (localConfig (VolatileSet_apply changes vm)) k = map_of (localConfig vm) k"
  by (induction changes arbitrary: vm) (auto simp: update_conv')

lemma VolatileSet_apply_expanded_notin:
  "k \<notin> fst ` set changes \<Longrightarrow>
   map_of (expandedConfig (VolatileSet_apply changes vm)) k = map_of (expandedConfig vm) k"
  by (induction changes arbitrary: vm) (auto simp: update_conv')

lemma VolatileSet_apply_local:
  "distinct (map fst changes) \<Longrightarrow> (k, v) \<in> set changes \<Longrightarrow>
   map_of (localConfig (VolatileSet_apply changes vm)) k = (if v = [] then None else Some v)"
proof (induction changes arbitrary: vm)
  case Nil
  then show ?case by simp
next
  case (Cons c changes)
  obtain key val where c: "c = (key, val)" by (cases c)
  show ?case
  proof (cases "(k, v) = c")
    case True
    with Cons.prems c have "k \<notin> fst ` set changes" by auto
    with True c show ?thesis
      by (simp add: VolatileSet_apply_local_notin update_conv' delete_conv')
  next
    case False
    with Cons.prems have "(k, v) \<in> set changes" "distinct (map fst changes)" by auto
    with Cons.IH show ?thesis using c by simp
  qed
qed

lemma VolatileSet_apply_expanded:
  "distinct (map fst changes) \<Longrightarrow> (k, v) \<in> set changes \<Longrightarrow>
   map_of (expandedConfig (VolatileSet_apply changes vm)) k = (if v = [] then None else Some v)"
proof (induction changes arbitrary: vm)
  case Nil
  then show ?case by simp
next
  case (Cons c changes)
  obtain key val where c: "c = (key, val)" by (cases c)
  show ?case
  proof (cases "(k, v) = c")
    case True
    with Cons.prems c have "k \<notin> fst ` set changes" by auto
    with True c show ?thesis
      by (simp add: VolatileSet_apply_expanded_notin update_conv' delete_conv')
  next
    case False
    with Cons.prems have "(k, v) \<in> set changes" "distinct (map fst changes)" by auto
    with Cons.IH show ?thesis using c by simp
  qed
qed

lemma VolatileSet_apply_trace: "trace (VolatileSet_apply changes vm) = trace vm"
  by (induction changes arbitrary: vm) auto

text \<open>
  Claim C10. \<^verbatim>\<open>VolatileSet(changes)\<close>: if some key of \<open>changes\<close> does not start with
  \<^verbatim>\<open>volatile.\<close>, an error is returned and nothing is modified: the driver's state is the
  one before the call, and since that state holds the history of the calls to the database,
  no database call was made. If every key has the prefix and the database update succeeds,
  the call succeeds and, for each entry of \<open>changes\<close>, an empty value has deleted the key
  from the local and the expanded config and a non-empty value has been set in both.
  The keys of a Go map are distinct.
\<close>

theorem VolatileSet_spec:
  assumes "distinct (map fst changes)"
  shows "((\<exists>key \<in> fst ` set changes. \<not> HasPrefix key ''volatile.'') \<longrightarrow>
            (\<exists>e. VolatileSet X changes vm = (Some e, vm)))
       \<and> ((\<forall>key \<in> fst ` set changes. HasPrefix key ''volatile.'')
            \<and> err X (trace vm)
                 (if snapshot vm then DB (InstanceSnapshotConfigUpdate (id_vm vm) changes)
                  else DB (ContainerConfigUpdate (id_vm vm) changes)) = None \<longrightarrow>
            (\<exists>vm'. VolatileSet X changes vm = (None, vm')
               \<and> (\<forall>(k, v) \<in> set changes.
                     (v = [] \<longrightarrow> map_of (localConfig vm') k = None
                                \<and> map_of (expandedConfig vm') k = None)
                   \<and> (v \<noteq> [] \<longrightarrow> map_of (localConfig vm') k = Some v
                                \<and> map_of (expandedConfig vm') k = Some v))))"
proof (intro conjI impI)
  assume "\<exists>key \<in> fst ` set changes. \<not> HasPrefix key ''volatile.''"
  then show "\<exists>e. VolatileSet X changes vm = (Some e, vm)"
    by (simp add: VolatileSet_def VolatileSet_check_Some)
next
  assume a: "(\<forall>key \<in> fst ` set changes. HasPrefix key ''volatile.'')
            \<and> err X (trace vm)
                 (if snapshot vm then DB (InstanceSnapshotConfigUpdate (id_vm vm) changes)
                  else DB (ContainerConfigUpdate (id_vm vm) changes)) = None"
  let ?ev = "if snapshot vm then DB (InstanceSnapshotConfigUpdate (id_vm vm) changes)
             else DB (ContainerConfigUpdate (id_vm vm) changes)"
  let ?vm' = "VolatileSet_apply changes (vm\<lparr>trace := trace vm @ [?ev]\<rparr>)"
  from a have "VolatileSet X changes vm = (None, ?vm')"
    by (simp add: VolatileSet_def VolatileSet_check_None call_def IsSnapshot_def)
  moreover have "\<forall>(k, v) \<in> set changes.
                     (v = [] \<longrightarrow> map_of (localConfig ?vm') k = None
                                \<and> map_of (expandedConfig ?vm') k = None)
                   \<and> (v \<noteq> [] \<longrightarrow> map_of (localConfig ?vm') k = Some v
                                \<and> map_of (expandedConfig ?vm') k = Some v)"
    using assms by (auto simp: VolatileSet_apply_local VolatileSet_apply_expanded)
  ultimately show "\<exists>vm'. VolatileSet X changes vm = (None, vm')
               \<and> (\<forall>(k, v) \<in> set changes.
                     (v = [] \<longrightarrow> map_of (localConfig vm') k = None
                                \<and> map_of (expandedConfig vm') k = None)
                   \<and> (v \<noteq> [] \<longrightarrow> map_of (localConfig vm') k = Some v
                                \<and> map_of (expandedConfig vm') k = Some v))"
    by blast
qed

theorem VolatileSet_spec_witness:
  "distinct (map fst [(''volatile.vm.uuid'', ''u1''), (''volatile.apply_template'', [])])
   \<and> (\<exists>vm'. VolatileSet env_ok [(''volatile.vm.uuid'', ''u1''), (''volatile.apply_template'', [])] vm0
               = (None, vm')
          \<and> map_of (localConfig vm') ''volatile.vm.uuid'' = Some ''u1''
          \<and> map_of (expandedConfig vm') ''volatile.apply_template'' = None)
   \<and> (\<exists>e. VolatileSet env_ok [(''volatile.vm.uuid'', ''u1''), (''limits.cpu'', ''2'')] vm0
               = (Some e, vm0))"
proof -
  have d1: "distinct (map fst [(''volatile.vm.uuid'', ''u1''), (''volatile.apply_template'', [])])"
    by simp
  have d2: "distinct (map fst [(''volatile.vm.uuid'', ''u1''), (''limits.cpu'', ''2'')])"
    by simp
  have ok: "err env_ok (trace vm0)
              (if snapshot vm0
               then DB (InstanceSnapshotConfigUpdate (id_vm vm0)
                          [(''volatile.vm.uuid'', ''u1''), (''volatile.apply_template'', [])])
               else DB (ContainerConfigUpdate (id_vm vm0)
                          [(''volatile.vm.uuid'', ''u1''), (''volatile.apply_template'', [])])) = None"
    by (simp add: env_ok_def)
  show ?thesis
    using VolatileSet_spec [OF d1, of env_ok vm0] VolatileSet_spec [OF d2, of env_ok vm0] ok
    by auto
qed

section \<open>Properties of FillNetworkDevice\<close>

lemma index_update_same: "index (AList.update k v m) k = v"
  by (simp add: index_def update_conv')

lemma index_update_other: "k' \<noteq> k \<Longrightarrow> index (AList.update k v m) k' = index m k'"
  by (simp add: index_def update_conv')

lemma Retry_success:
  "Retry n r f vm = (None, vm1) \<Longrightarrow> (\<And>v v1. f v = (None, v1) \<Longrightarrow> P v1) \<Longrightarrow> P vm1"
proof (induction n arbitrary: vm)
  case 0
  then show ?case by simp
next
  case (Suc n)
  obtain res v where fv: "f vm = (res, v)" by (cases "f vm")
  show ?case
  proof (cases res)
    case None
    with Suc.prems fv show ?thesis by auto
  next
    case (Some e)
    with Suc.prems(1) fv have "r e" "Retry n r f v = (None, vm1)"
      by (auto split: if_splits)
    with Suc.IH Suc.prems(2) show ?thesis by blast
  qed
qed

lemma FillNetworkDevice_update_success:
  assumes "FillNetworkDevice_update X configKey generated v = (None, v1)" "generated \<noteq> []"
  shows "index (localConfig v1) configKey \<noteq> []"
  using assms
  by (auto simp: FillNetworkDevice_update_def index_update_same
      split: prod.splits option.splits sum.splits if_splits)

lemma FillNetworkDevice_known:
  assumes "\<not> StringInSlice (NICType X m) [''physical'', ''ipvlan'', ''sriov'']"
    and "index m ''hwaddr'' = []"
    and "index (localConfig vm) (''volatile.'' @ name' @ ''.hwaddr'') \<noteq> []"
  shows "FillNetworkDevice X name' m vm =
           (Inr (AList.update ''hwaddr'' (index (localConfig vm) (''volatile.'' @ name' @ ''.hwaddr'')) m), vm)"
  using assms by (simp add: FillNetworkDevice_def Let_def)

lemma FillNetworkDevice_calls_known:
  assumes "\<forall>m \<in> set ms. \<not> StringInSlice (NICType X m) [''physical'', ''ipvlan'', ''sriov'']
                         \<and> index m ''hwaddr'' = []"
    and "index (localConfig vm) (''volatile.'' @ name' @ ''.hwaddr'') \<noteq> []"
  shows "FillNetworkDevice_calls X name' ms vm =
           (map (\<lambda>m. Inr (AList.update ''hwaddr''
                             (index (localConfig vm) (''volatile.'' @ name' @ ''.hwaddr'')) m)) ms, vm)"
  using assms by (induction ms) (simp_all add: FillNetworkDevice_known)

text \<open>
  Claim C9. \<^verbatim>\<open>FillNetworkDevice\<close> is idempotent for the generation of the MAC address.
  Let a first call for a device without a configured \<open>hwaddr\<close> (and whose NIC type is not
  one of physical, ipvlan, sriov) find no \<^verbatim>\<open>volatile.<name>.hwaddr\<close>, generate an address
  and succeed. Then the key is set in the local config, and every later call for the same
  device name and such a device returns the device with \<open>hwaddr\<close> set to that persisted
  value and leaves the state as it is; the state holds the history of the calls to the
  database, so no further database call is made. The generator of addresses
  (\<^verbatim>\<open>instance.DeviceNextInterfaceHWAddr\<close>) never returns an empty address.
\<close>

theorem FillNetworkDevice_idempotent:
  assumes gen: "\<forall>h hw. DeviceNextInterfaceHWAddr X h = Inr hw \<longrightarrow> hw \<noteq> []"
    and kind: "\<not> StringInSlice (NICType X m) [''physical'', ''ipvlan'', ''sriov'']"
              "index m ''hwaddr'' = []"
    and fresh: "index (localConfig vm) (''volatile.'' @ name' @ ''.hwaddr'') = []"
    and first: "FillNetworkDevice X name' m vm = (Inr d, vm1)"
    and later: "\<forall>m' \<in> set ms. \<not> StringInSlice (NICType X m') [''physical'', ''ipvlan'', ''sriov'']
                         \<and> index m' ''hwaddr'' = []"
  shows "index (localConfig vm1) (''volatile.'' @ name' @ ''.hwaddr'') \<noteq> []
       \<and> FillNetworkDevice_calls X name' ms vm1 =
           (map (\<lambda>m'. Inr (AList.update ''hwaddr''
                     (index (localConfig vm1) (''volatile.'' @ name' @ ''.hwaddr'')) m')) ms, vm1)
       \<and> (\<forall>r \<in> set (fst (FillNetworkDevice_calls X name' ms vm1)).
             \<exists>d'. r = Inr d' \<and> index d' ''hwaddr''
                     = index (localConfig vm1) (''volatile.'' @ name' @ ''.hwaddr''))"
proof -
  let ?key = "''volatile.'' @ name' @ ''.hwaddr''"
  from first kind fresh obtain generated where
    g: "DeviceNextInterfaceHWAddr X (trace vm) = Inr generated"
    and r: "Retry (retries X) (IsRetriableError X) (FillNetworkDevice_update X ?key generated) vm
              = (None, vm1)"
    by (auto simp: FillNetworkDevice_def Let_def split: sum.splits prod.splits option.splits)
  from g gen have "generated \<noteq> []" by blast
  then have p: "index (localConfig vm1) ?key \<noteq> []"
    using Retry_success [OF r, where P = "\<lambda>v. index (localConfig v) ?key \<noteq> []"]
      FillNetworkDevice_update_success by blast
  from FillNetworkDevice_calls_known [OF later p] p show ?thesis
    by (auto simp: index_update_same)
qed


lemma first_call:
  "FillNetworkDevice env_ok ''eth0'' [(''type'', ''nic''), (''nictype'', ''bridged'')] vm0 =
     (Inr [(''type'', ''nic''), (''nictype'', ''bridged''), (''hwaddr'', ''00:16:3e:aa:bb:cc'')],
      vm0\<lparr>localConfig := [(''limits.memory'', ''2GiB''), (''volatile.eth0.hwaddr'', ''00:16:3e:aa:bb:cc'')],
          expandedConfig := [(''limits.memory'', ''2GiB''), (''volatile.eth0.hwaddr'', ''00:16:3e:aa:bb:cc'')],
          trace := [DB Cluster_Begin,
                    DB (ContainerConfigInsert 7 [(''volatile.eth0.hwaddr'', ''00:16:3e:aa:bb:cc'')]),
                    DB TxCommit]\<rparr>)"
  by (simp add: FillNetworkDevice_def env_ok_def vm0_def Let_def StringInSlice_def index_def
    FillNetworkDevice_update_def updateKey_def call_def emit_def eval_nat_numeral)

theorem FillNetworkDevice_idempotent_witness:
  "\<exists>d vm1. FillNetworkDevice env_ok ''eth0'' [(''type'', ''nic''), (''nictype'', ''bridged'')] vm0 = (Inr d, vm1)
     \<and> index (localConfig vm0) ''volatile.eth0.hwaddr'' = []
     \<and> index (localConfig vm1) ''volatile.eth0.hwaddr'' = ''00:16:3e:aa:bb:cc''
     \<and> FillNetworkDevice_calls env_ok ''eth0''
          [[(''type'', ''nic''), (''nictype'', ''bridged'')], [(''type'', ''nic'')]] vm1 =
        ([Inr [(''type'', ''nic''), (''nictype'', ''bridged''), (''hwaddr'', ''00:16:3e:aa:bb:cc'')],
          Inr [(''type'', ''nic''), (''hwaddr'', ''00:16:3e:aa:bb:cc'')]], vm1)"
proof -
  let ?nic = "[(''type'', ''nic''), (''nictype'', ''bridged'')]"
  let ?vm1 = "vm0\<lparr>localConfig := [(''limits.memory'', ''2GiB''), (''volatile.eth0.hwaddr'', ''00:16:3e:aa:bb:cc'')],
          expandedConfig := [(''limits.memory'', ''2GiB''), (''volatile.eth0.hwaddr'', ''00:16:3e:aa:bb:cc'')],
          trace := [DB Cluster_Begin,
                    DB (ContainerConfigInsert 7 [(''volatile.eth0.hwaddr'', ''00:16:3e:aa:bb:cc'')]),
                    DB TxCommit]\<rparr>"
  have gen: "\<forall>h hw. DeviceNextInterfaceHWAddr env_ok h = Inr hw \<longrightarrow> hw \<noteq> []"
    by (simp add: env_ok_def)
  have kind: "\<not> StringInSlice (NICType env_ok ?nic) [''physical'', ''ipvlan'', ''sriov'']"
    "index ?nic ''hwaddr'' = []"
    by (simp_all add: env_ok_def StringInSlice_def index_def)
  have fresh: "index (localConfig vm0) (''volatile.'' @ ''eth0'' @ ''.hwaddr'') = []"
    by (simp add: vm0_def index_def)
  have later: "\<forall>m' \<in> set [?nic, [(''type'', ''nic'')]].
      \<not> StringInSlice (NICType env_ok m') [''physical'', ''ipvlan'', ''sriov''] \<and> index m' ''hwaddr'' = []"
    by (simp add: env_ok_def StringInSlice_def index_def)
  have p: "index (localConfig ?vm1) ''volatile.eth0.hwaddr'' = ''00:16:3e:aa:bb:cc''"
    by (simp add: index_def)
  from FillNetworkDevice_idempotent [OF gen kind fresh first_call later] fresh p first_call
  show ?thesis by simp
qed

section \<open>Properties of deviceBootPriorities\<close>





















end
